theory Spec2Isabelle
  imports Complex_Main "HOL-Library.AList"
begin

section \<open>Python values used by \<^verbatim>\<open>app.py\<close>\<close>

text \<open>
  The development embeds the ingestion engine of \<^verbatim>\<open>src/app.py\<close>: the timestamp
  normalizer \<^verbatim>\<open>ensure_datetime_utc\<close>, the merge \<^verbatim>\<open>add_or_update_messwert\<close>, the two
  parsers \<^verbatim>\<open>parse_sdat_file\<close> and \<^verbatim>\<open>parse_esl_file\<close>, the loader \<^verbatim>\<open>load_all_data\<close> and the
  two payload builders.  Functions that raise return a sum: \<open>Inl\<close> carries the exception,
  \<open>Inr\<close> the value.  The three exception classes that can leave the functions of the
  file are listed here.
\<close>

datatype error = ValueError | OverflowError | SyntaxError

subsection \<open>Strings\<close>

text \<open>
  A Python string is a \<open>string\<close> (ASCII).  \<^verbatim>\<open>str.strip()\<close> removes the ASCII white space
  of \<^verbatim>\<open>str.isspace\<close> at both ends.
\<close>

definition is_space :: "char \<Rightarrow> bool" where
  "is_space c = (let n = (of_char c :: int) in (9 \<le> n \<and> n \<le> 13) \<or> (28 \<le> n \<and> n \<le> 32))"

definition strip :: "string \<Rightarrow> string" where
  "strip s = rev (dropWhile is_space (rev (dropWhile is_space s)))"

definition is_digit :: "char \<Rightarrow> bool" where
  "is_digit c = (let n = (of_char c :: int) in 48 \<le> n \<and> n \<le> 57)"

definition digit_val :: "char \<Rightarrow> int" where
  "digit_val c = (of_char c :: int) - 48"

definition int_of_digits :: "string \<Rightarrow> int" where
  "int_of_digits s = foldl (\<lambda>n c. 10 * n + digit_val c) 0 s"

definition all_digits :: "string \<Rightarrow> bool" where
  "all_digits s = (s \<noteq> [] \<and> list_all is_digit s)"

definition upper_char :: "char \<Rightarrow> char" where
  "upper_char c = (let n = (of_char c :: int) in if 97 \<le> n \<and> n \<le> 122 then char_of (n - 32) else c)"

definition upper :: "string \<Rightarrow> string" where
  "upper s = map upper_char s"

fun startswith :: "string \<Rightarrow> string \<Rightarrow> bool" where
  "startswith s [] = True"
| "startswith [] (p # ps) = False"
| "startswith (c # cs) (p # ps) = (c = p \<and> startswith cs ps)"

text \<open>\<^verbatim>\<open>sub in s\<close>: \<open>sub\<close> occurs in \<open>s\<close> as a contiguous substring.\<close>

fun contains :: "string \<Rightarrow> string \<Rightarrow> bool" where
  "contains [] sub = (sub = [])"
| "contains (c # cs) sub = (startswith (c # cs) sub \<or> contains cs sub)"

text \<open>\<^verbatim>\<open>s.replace(",", ".")\<close>.\<close>

definition replace_comma :: "string \<Rightarrow> string" where
  "replace_comma s = map (\<lambda>c. if c = CHR '','' then CHR ''.'' else c) s"

subsection \<open>\<^verbatim>\<open>int()\<close> and \<^verbatim>\<open>float()\<close> of a string\<close>

text \<open>
  \<^verbatim>\<open>int(s)\<close> on a string: white space stripped, an optional sign, then decimal digits.
  \<open>None\<close> is Python's \<^verbatim>\<open>ValueError\<close>.  (Digit grouping with underscores and non-ASCII
  digits are outside this model.)
\<close>

definition py_int :: "string \<Rightarrow> int option" where
  "py_int text =
     (let s = strip text in
      case s of
        [] \<Rightarrow> None
      | c # cs \<Rightarrow>
          if c = CHR ''-'' then (if all_digits cs then Some (- int_of_digits cs) else None)
          else if c = CHR ''+'' then (if all_digits cs then Some (int_of_digits cs) else None)
          else if all_digits s then Some (int_of_digits s) else None)"

text \<open>
  A Python float is a finite number, an infinity or NaN.  Finite arithmetic is exact in
  this model: neither the rounding of binary64 nor the overflow of a finite result to an
  infinity is represented.  The special values follow IEEE 754.  \<open>feq\<close> is Python's \<^verbatim>\<open>==\<close>, \<open>flt\<close> is \<^verbatim>\<open><\<close>.
\<close>

datatype pyfloat = Finite real | PosInf | NegInf | NaN

fun fneg :: "pyfloat \<Rightarrow> pyfloat" where
  "fneg (Finite x) = Finite (- x)"
| "fneg PosInf = NegInf"
| "fneg NegInf = PosInf"
| "fneg NaN = NaN"

fun fadd :: "pyfloat \<Rightarrow> pyfloat \<Rightarrow> pyfloat" where
  "fadd (Finite x) (Finite y) = Finite (x + y)"
| "fadd NaN _ = NaN"
| "fadd _ NaN = NaN"
| "fadd PosInf NegInf = NaN"
| "fadd NegInf PosInf = NaN"
| "fadd PosInf _ = PosInf"
| "fadd NegInf _ = NegInf"
| "fadd _ PosInf = PosInf"
| "fadd _ NegInf = NegInf"

definition fsub :: "pyfloat \<Rightarrow> pyfloat \<Rightarrow> pyfloat" where
  "fsub a b = fadd a (fneg b)"

fun flt :: "pyfloat \<Rightarrow> pyfloat \<Rightarrow> bool" where
  "flt (Finite x) (Finite y) = (x < y)"
| "flt NaN _ = False"
| "flt _ NaN = False"
| "flt NegInf NegInf = False"
| "flt NegInf _ = True"
| "flt _ NegInf = False"
| "flt PosInf _ = False"
| "flt _ PosInf = True"

fun feq :: "pyfloat \<Rightarrow> pyfloat \<Rightarrow> bool" where
  "feq NaN _ = False"
| "feq _ NaN = False"
| "feq a b = (a = b)"

text \<open>
  \<^verbatim>\<open>float(s)\<close> on a string: white space stripped, an optional sign, then \<^verbatim>\<open>inf\<close>,
  \<^verbatim>\<open>infinity\<close> or \<^verbatim>\<open>nan\<close> in any case, or a decimal number with an optional fraction and
  an optional exponent.  \<open>None\<close> is \<^verbatim>\<open>ValueError\<close>.  (Digit grouping with underscores is
  outside this model, and a decimal beyond the range of binary64 stays finite here where
  Python gives an infinity.)
\<close>

definition py_exponent :: "string \<Rightarrow> int option" where
  "py_exponent r =
     (case r of
        [] \<Rightarrow> Some 0
      | c # cs \<Rightarrow>
          if upper_char c = CHR ''E'' then
            (case cs of
               [] \<Rightarrow> None
             | d # ds \<Rightarrow>
                 if d = CHR ''-'' then (if all_digits ds then Some (- int_of_digits ds) else None)
                 else if d = CHR ''+'' then (if all_digits ds then Some (int_of_digits ds) else None)
                 else if all_digits cs then Some (int_of_digits cs) else None)
          else None)"

definition py_decimal :: "string \<Rightarrow> real option" where
  "py_decimal s =
     (let ip = takeWhile is_digit s;
          r1 = dropWhile is_digit s;
          fp = (if startswith r1 ''.'' then takeWhile is_digit (tl r1) else []);
          r2 = (if startswith r1 ''.'' then dropWhile is_digit (tl r1) else r1)
      in if ip = [] \<and> fp = [] then None
         else case py_exponent r2 of
                None \<Rightarrow> None
              | Some e \<Rightarrow>
                  let m = real_of_int (int_of_digits (ip @ fp)) / 10 ^ length fp
                  in Some (if 0 \<le> e then m * 10 ^ nat e else m / 10 ^ nat (- e)))"

definition py_float_unsigned :: "string \<Rightarrow> pyfloat option" where
  "py_float_unsigned s =
     (if upper s = ''INF'' \<or> upper s = ''INFINITY'' then Some PosInf
      else if upper s = ''NAN'' then Some NaN
      else map_option Finite (py_decimal s))"

definition py_float :: "string \<Rightarrow> pyfloat option" where
  "py_float text =
     (let s = strip text in
      case s of
        [] \<Rightarrow> None
      | c # cs \<Rightarrow>
          if c = CHR ''-'' then map_option fneg (py_float_unsigned cs)
          else if c = CHR ''+'' then py_float_unsigned cs
          else py_float_unsigned s)"

subsection \<open>\<^verbatim>\<open>datetime\<close> and \<^verbatim>\<open>timedelta\<close>\<close>

text \<open>
  A \<^verbatim>\<open>datetime\<close> object has its calendar fields and a \<^verbatim>\<open>tzinfo\<close>, here the UTC offset in
  microseconds (\<open>None\<close> for a naive value).  An aware UTC datetime, the series key of the
  program, is represented by its instant: the microseconds since 0001-01-01T00:00:00,
  the number Python compares, hashes and does arithmetic with.  The calendar functions are
  those of the \<^verbatim>\<open>datetime\<close> module (\<^verbatim>\<open>_is_leap\<close>, \<^verbatim>\<open>_days_in_month\<close>, \<^verbatim>\<open>_ymd2ord\<close>).
\<close>

record datetime =
  year :: int
  month :: int
  day :: int
  hour :: int
  minute :: int
  second :: int
  microsecond :: int
  tzinfo :: "int option"

definition is_leap :: "int \<Rightarrow> bool" where
  "is_leap y = (y mod 4 = 0 \<and> (y mod 100 \<noteq> 0 \<or> y mod 400 = 0))"

definition days_in_month :: "int \<Rightarrow> int \<Rightarrow> int" where
  "days_in_month y m =
     (if m = 2 then (if is_leap y then 29 else 28)
      else if m = 4 \<or> m = 6 \<or> m = 9 \<or> m = 11 then 30 else 31)"

definition days_before_year :: "int \<Rightarrow> int" where
  "days_before_year y = (y - 1) * 365 + (y - 1) div 4 - (y - 1) div 100 + (y - 1) div 400"

definition days_before_month :: "int \<Rightarrow> int \<Rightarrow> int" where
  "days_before_month y m =
     [0, 0, 31, 59, 90, 120, 151, 181, 212, 243, 273, 304, 334] ! nat m
       + (if 2 < m \<and> is_leap y then 1 else 0)"

definition ymd2ord :: "int \<Rightarrow> int \<Rightarrow> int \<Rightarrow> int" where
  "ymd2ord y m d = days_before_year y + days_before_month y m + d"

text \<open>The checks of the \<^verbatim>\<open>datetime\<close> constructor (\<^verbatim>\<open>MINYEAR = 1\<close>, \<^verbatim>\<open>MAXYEAR = 9999\<close>).\<close>

definition valid_fields :: "int \<Rightarrow> int \<Rightarrow> int \<Rightarrow> int \<Rightarrow> int \<Rightarrow> int \<Rightarrow> int \<Rightarrow> bool" where
  "valid_fields y mo d h mi s us =
     (1 \<le> y \<and> y \<le> 9999 \<and> 1 \<le> mo \<and> mo \<le> 12 \<and> 1 \<le> d \<and> d \<le> days_in_month y mo
      \<and> 0 \<le> h \<and> h < 24 \<and> 0 \<le> mi \<and> mi < 60 \<and> 0 \<le> s \<and> s < 60
      \<and> 0 \<le> us \<and> us < 1000000)"

definition mk_datetime ::
  "int \<Rightarrow> int \<Rightarrow> int \<Rightarrow> int \<Rightarrow> int \<Rightarrow> int \<Rightarrow> int \<Rightarrow> int option \<Rightarrow> datetime option" where
  "mk_datetime y mo d h mi s us tz =
     (if valid_fields y mo d h mi s us
      then Some \<lparr>year = y, month = mo, day = d, hour = h, minute = mi, second = s,
                 microsecond = us, tzinfo = tz\<rparr>
      else None)"

text \<open>The fields of a datetime as microseconds since 0001-01-01T00:00:00.\<close>

definition wall_us :: "datetime \<Rightarrow> int" where
  "wall_us dt =
     ((ymd2ord (year dt) (month dt) (day dt) - 1) * 86400
        + hour dt * 3600 + minute dt * 60 + second dt) * 1000000
     + microsecond dt"

text \<open>The last representable instant, 9999-12-31T23:59:59.999999.\<close>

definition max_us :: int where
  "max_us = 3652059 * 86400 * 1000000 - 1"

text \<open>
  \<^verbatim>\<open>datetime.fromisoformat\<close>, for the grammar the documentation of Python 3.7 to 3.10
  gives: \<^verbatim>\<open>YYYY-MM-DD[*HH[:MM[:SS[.fff[fff]]]][+HH:MM[:SS[.ffffff]]]]\<close>, where \<^verbatim>\<open>*\<close> is any
  one character.  Later versions accept further ISO 8601 forms.  \<open>None\<close> is \<^verbatim>\<open>ValueError\<close>.
\<close>

definition two_digits :: "string \<Rightarrow> int option" where
  "two_digits s = (if length s = 2 \<and> list_all is_digit s then Some (int_of_digits s) else None)"

definition parse_fraction :: "string \<Rightarrow> int option" where
  "parse_fraction s =
     (if length s = 6 \<and> list_all is_digit s then Some (int_of_digits s)
      else if length s = 3 \<and> list_all is_digit s then Some (int_of_digits s * 1000)
      else None)"

definition parse_hh_mm_ss_ff :: "string \<Rightarrow> (int \<times> int \<times> int \<times> int) option" where
  "parse_hh_mm_ss_ff s =
     (case two_digits (take 2 s) of
        None \<Rightarrow> None
      | Some h \<Rightarrow>
          if drop 2 s = [] then Some (h, 0, 0, 0)
          else if s ! 2 \<noteq> CHR '':'' then None
          else
            (case two_digits (take 2 (drop 3 s)) of
               None \<Rightarrow> None
             | Some mi \<Rightarrow>
                 if drop 5 s = [] then Some (h, mi, 0, 0)
                 else if s ! 5 \<noteq> CHR '':'' then None
                 else
                   (case two_digits (take 2 (drop 6 s)) of
                      None \<Rightarrow> None
                    | Some sec \<Rightarrow>
                        if drop 8 s = [] then Some (h, mi, sec, 0)
                        else if s ! 8 \<noteq> CHR ''.'' then None
                        else map_option (\<lambda>us. (h, mi, sec, us)) (parse_fraction (drop 9 s)))))"

definition parse_isoformat_date :: "string \<Rightarrow> (int \<times> int \<times> int) option" where
  "parse_isoformat_date s =
     (if length s = 10 \<and> list_all is_digit (take 4 s) \<and> s ! 4 = CHR ''-''
         \<and> list_all is_digit (take 2 (drop 5 s)) \<and> s ! 7 = CHR ''-''
         \<and> list_all is_digit (drop 8 s)
      then Some (int_of_digits (take 4 s), int_of_digits (take 2 (drop 5 s)),
                 int_of_digits (drop 8 s))
      else None)"

text \<open>
  The offset of a time string: the text after the first \<^verbatim>\<open>-\<close>, or else the first \<^verbatim>\<open>+\<close>,
  of length 5, 8 or 15; \<^verbatim>\<open>timezone\<close> accepts an offset strictly between -24 and 24 hours.
\<close>

definition tz_split :: "string \<Rightarrow> (string \<times> (char \<times> string) option)" where
  "tz_split t =
     (if CHR ''-'' \<in> set t
      then (takeWhile (\<lambda>c. c \<noteq> CHR ''-'') t, Some (CHR ''-'', tl (dropWhile (\<lambda>c. c \<noteq> CHR ''-'') t)))
      else if CHR ''+'' \<in> set t
      then (takeWhile (\<lambda>c. c \<noteq> CHR ''+'') t, Some (CHR ''+'', tl (dropWhile (\<lambda>c. c \<noteq> CHR ''+'') t)))
      else (t, None))"

definition parse_tz :: "char \<Rightarrow> string \<Rightarrow> int option" where
  "parse_tz sign z =
     (if length z = 5 \<or> length z = 8 \<or> length z = 15 then
        (case parse_hh_mm_ss_ff z of
           None \<Rightarrow> None
         | Some (h, mi, s, us) \<Rightarrow>
             let off = (h * 3600 + mi * 60 + s) * 1000000 + us
             in if off < 86400 * 1000000
                then Some (if sign = CHR ''-'' then - off else off)
                else None)
      else None)"

definition parse_isoformat_time :: "string \<Rightarrow> ((int \<times> int \<times> int \<times> int) \<times> int option) option" where
  "parse_isoformat_time t =
     (case tz_split t of
        (ts, None) \<Rightarrow> map_option (\<lambda>c. (c, None)) (parse_hh_mm_ss_ff ts)
      | (ts, Some (sign, z)) \<Rightarrow>
          (case parse_hh_mm_ss_ff ts of
             None \<Rightarrow> None
           | Some c \<Rightarrow> map_option (\<lambda>off. (c, Some off)) (parse_tz sign z)))"

definition fromisoformat :: "string \<Rightarrow> datetime option" where
  "fromisoformat s =
     (case parse_isoformat_date (take 10 s) of
        None \<Rightarrow> None
      | Some (y, mo, d) \<Rightarrow>
          if length s \<le> 10 then mk_datetime y mo d 0 0 0 0 None
          else
            (case parse_isoformat_time (drop 11 s) of
               None \<Rightarrow> None
             | Some ((h, mi, sec, us), tz) \<Rightarrow> mk_datetime y mo d h mi sec us tz))"

text \<open>
  \<^verbatim>\<open>datetime.strptime\<close> for the two formats of the source, \<^verbatim>\<open>%Y-%m-%dT%H:%M:%S\<close>
  (\<open>sep = T\<close>, matched in either case) and \<^verbatim>\<open>%Y-%m-%d %H:%M:%S\<close> (\<open>sep\<close> a blank: one or
  more white-space characters).  \<^verbatim>\<open>%Y\<close> is four digits; the other fields are one or two
  digits in the range of the directive.  \<open>None\<close> is \<^verbatim>\<open>ValueError\<close>.
\<close>

definition take_field :: "int \<Rightarrow> int \<Rightarrow> string \<Rightarrow> (int \<times> string) option" where
  "take_field lo hi s =
     (let ds = takeWhile is_digit s; n = int_of_digits ds
      in if (length ds = 1 \<or> length ds = 2) \<and> lo \<le> n \<and> n \<le> hi
         then Some (n, dropWhile is_digit s) else None)"

text \<open>\<^verbatim>\<open>%d\<close> also matches a blank followed by one digit from 1 to 9.\<close>

definition take_day :: "string \<Rightarrow> (int \<times> string) option" where
  "take_day s =
     (case take_field 1 31 s of
        Some r \<Rightarrow> Some r
      | None \<Rightarrow>
          (case s of
             c # d # rest \<Rightarrow>
               if c = CHR '' '' \<and> is_digit d \<and> 1 \<le> digit_val d then Some (digit_val d, rest)
               else None
           | _ \<Rightarrow> None))"

definition take_char :: "char \<Rightarrow> string \<Rightarrow> string option" where
  "take_char c s = (case s of [] \<Rightarrow> None | x # xs \<Rightarrow> if x = c then Some xs else None)"

definition take_sep :: "char \<Rightarrow> string \<Rightarrow> string option" where
  "take_sep sep s =
     (case s of
        [] \<Rightarrow> None
      | x # xs \<Rightarrow>
          if sep = CHR ''T'' then (if upper_char x = CHR ''T'' then Some xs else None)
          else if is_space x then Some (dropWhile is_space xs) else None)"

definition strptime :: "char \<Rightarrow> string \<Rightarrow> datetime option" where
  "strptime sep s =
     (if \<not> list_all is_digit (take 4 s) \<or> length s < 4 then None
      else
        Option.bind (take_char CHR ''-'' (drop 4 s)) (\<lambda>r1.
        Option.bind (take_field 1 12 r1) (\<lambda>(mo, r2).
        Option.bind (take_char CHR ''-'' r2) (\<lambda>r3.
        Option.bind (take_day r3) (\<lambda>(d, r4).
        Option.bind (take_sep sep r4) (\<lambda>r5.
        Option.bind (take_field 0 23 r5) (\<lambda>(h, r6).
        Option.bind (take_char CHR '':'' r6) (\<lambda>r7.
        Option.bind (take_field 0 59 r7) (\<lambda>(mi, r8).
        Option.bind (take_char CHR '':'' r8) (\<lambda>r9.
        Option.bind (take_field 0 61 r9) (\<lambda>(sec, r10).
          if r10 = [] then mk_datetime (int_of_digits (take 4 s)) mo d h mi sec 0 None
          else None)))))))))))"

subsection \<open>The timestamp normalizer\<close>

text \<open>
  Lines 52 to 67 of \<^verbatim>\<open>ensure_datetime_utc\<close>: the string is stripped, a trailing \<^verbatim>\<open>Z\<close>
  becomes \<^verbatim>\<open>+00:00\<close>, \<^verbatim>\<open>fromisoformat\<close> is tried, and on its \<^verbatim>\<open>ValueError\<close> the two
  \<^verbatim>\<open>strptime\<close> formats are tried on the original string; when both fail the
  \<^verbatim>\<open>ValueError\<close> is raised again.
\<close>

definition parse_datetime :: "string \<Rightarrow> error + datetime" where
  "parse_datetime dt_str =
     (let s0 = strip dt_str;
          s = (if s0 \<noteq> [] \<and> last s0 = CHR ''Z'' then butlast s0 @ ''+00:00'' else s0)
      in case fromisoformat s of
           Some dt \<Rightarrow> Inr dt
         | None \<Rightarrow>
             (case strptime CHR ''T'' dt_str of
                Some dt \<Rightarrow> Inr dt
              | None \<Rightarrow>
                  (case strptime CHR '' '' dt_str of
                     Some dt \<Rightarrow> Inr dt
                   | None \<Rightarrow> Inl ValueError)))"

text \<open>
  Lines 68 to 72: a naive value gets \<^verbatim>\<open>tzinfo = utc\<close> with its fields unchanged; an aware
  one is converted with \<^verbatim>\<open>astimezone(utc)\<close>, which subtracts the offset and raises
  \<^verbatim>\<open>OverflowError\<close> when the result leaves the years 1 to 9999.
\<close>

definition to_utc :: "datetime \<Rightarrow> error + int" where
  "to_utc dt =
     (case tzinfo dt of
        None \<Rightarrow> Inr (wall_us dt)
      | Some off \<Rightarrow>
          let u = wall_us dt - off
          in if 0 \<le> u \<and> u \<le> max_us then Inr u else Inl OverflowError)"

definition ensure_datetime_utc :: "string \<Rightarrow> error + int" where
  "ensure_datetime_utc dt_str =
     (case parse_datetime dt_str of Inl e \<Rightarrow> Inl e | Inr dt \<Rightarrow> to_utc dt)"

text \<open>
  A \<^verbatim>\<open>timedelta\<close> is its length in microseconds; the constructor and the arithmetic raise
  \<^verbatim>\<open>OverflowError\<close> beyond 999999999 days.  Adding a timedelta to a datetime raises
  \<^verbatim>\<open>OverflowError\<close> when the result leaves the years 1 to 9999.
\<close>

definition mk_timedelta :: "int \<Rightarrow> error + int" where
  "mk_timedelta us =
     (if - 999999999 * 86400 * 1000000 \<le> us \<and> us < 1000000000 * 86400 * 1000000
      then Inr us else Inl OverflowError)"

definition datetime_add :: "int \<Rightarrow> int \<Rightarrow> error + int" where
  "datetime_add t td = (if 0 \<le> t + td \<and> t + td \<le> max_us then Inr (t + td) else Inl OverflowError)"

section \<open>XML documents as \<^verbatim>\<open>xml.etree.ElementTree\<close> presents them\<close>

text \<open>
  An element has a tag, its attributes, its text, its children and the text after its end
  tag (\<open>tail\<close>).  ElementTree writes the tag of a namespace-qualified element in Clark
  notation: \<^verbatim>\<open><rsm:TimePeriod xmlns:rsm="urn:x">\<close> has the tag \<^verbatim>\<open>{urn:x}TimePeriod\<close>.
  \<^verbatim>\<open>ET.parse\<close> either raises \<^verbatim>\<open>ParseError\<close> (\<open>Malformed\<close>) or gives the root element.
\<close>

datatype xml =
  Element (xtag: string) (attrib: "(string \<times> string) list") (xtext: "string option")
    (children: "xml list") (tail: "string option")

datatype xml_file = Malformed | WellFormed xml

definition str_of :: "string option \<Rightarrow> string" where
  "str_of t = (case t of None \<Rightarrow> [] | Some s \<Rightarrow> s)"

text \<open>The truth value of an optional string: \<^verbatim>\<open>None\<close> and \<^verbatim>\<open>""\<close> are false.\<close>

definition truthy :: "string option \<Rightarrow> bool" where
  "truthy t = (str_of t \<noteq> [])"

text \<open>\<^verbatim>\<open>a or b\<close> on optional strings.\<close>

definition py_or :: "string option \<Rightarrow> string option \<Rightarrow> string option" where
  "py_or a b = (if truthy a then a else b)"

text \<open>\<^verbatim>\<open>"".join(root.itertext())\<close>: the text of the element and, for each child, its own
  text content and its tail.\<close>

fun text_content :: "xml \<Rightarrow> string" where
  "text_content (Element t a tx cs tx2) =
     str_of tx @ concat (map (\<lambda>c. text_content c @ str_of (tail c)) cs)"

text \<open>\<^verbatim>\<open>iter\<close>: the element and its descendants in document order.\<close>

fun iter :: "xml \<Rightarrow> xml list" where
  "iter (Element t a tx cs tx2) = Element t a tx cs tx2 # concat (map iter cs)"

definition descendants :: "xml \<Rightarrow> xml list" where
  "descendants e = concat (map iter (children e))"

text \<open>
  \<^verbatim>\<open>e.findall(".//" + tag)\<close> and \<^verbatim>\<open>e.find(".//" + tag)\<close>, called without a namespace map
  as the source does: the descendants whose tag is \<open>tag\<close>, in document order.  A tag of
  the form \<^verbatim>\<open>prefix:name\<close> makes ElementPath raise
  \<^verbatim>\<open>SyntaxError("prefix 'rsm' not found in prefix map")\<close> while it reads the path, before any
  element is looked at.
\<close>

definition prefixed :: "string \<Rightarrow> bool" where
  "prefixed tag = (CHR '':'' \<in> set tag \<and> \<not> startswith tag ''{'')"

definition findall :: "xml \<Rightarrow> string \<Rightarrow> error + xml list" where
  "findall e tag =
     (if prefixed tag then Inl SyntaxError else Inr (filter (\<lambda>x. xtag x = tag) (descendants e)))"

definition find_elem :: "xml \<Rightarrow> string \<Rightarrow> error + xml option" where
  "find_elem e tag =
     (case findall e tag of
        Inl err \<Rightarrow> Inl err
      | Inr xs \<Rightarrow> Inr (case xs of [] \<Rightarrow> None | x # _ \<Rightarrow> Some x))"

section \<open>Domain model and merge\<close>

record Messwert =
  timestamp :: int
  "value" :: pyfloat
  relative :: pyfloat

text \<open>
  \<^verbatim>\<open>MeterSeries\<close> is an \<^verbatim>\<open>OrderedDict\<close> and \<^verbatim>\<open>AllMeters\<close> a \<^verbatim>\<open>dict\<close>: association lists in
  insertion order.  \<open>AList.update\<close> is item assignment: it replaces the value of a key
  where it stands and appends a new key at the end.
\<close>

type_synonym MeterSeries = "(int \<times> Messwert) list"
type_synonym AllMeters = "(string \<times> MeterSeries) list"

definition METER_EXPORT_ID :: string where
  "METER_EXPORT_ID = ''ID735''"

definition METER_IMPORT_ID :: string where
  "METER_IMPORT_ID = ''ID742''"

definition OBIS_IMPORT :: "string list" where
  "OBIS_IMPORT = ['':1.8.1'', '':1.8.2'']"

definition OBIS_EXPORT :: "string list" where
  "OBIS_EXPORT = ['':2.8.1'', '':2.8.2'']"

definition add_or_update_messwert ::
  "MeterSeries \<Rightarrow> int \<Rightarrow> pyfloat option \<Rightarrow> pyfloat option \<Rightarrow> MeterSeries" where
  "add_or_update_messwert series ts val rel =
     (case map_of series ts of
        None \<Rightarrow>
          AList.update ts
            \<lparr>timestamp = ts,
             value = (case val of Some v \<Rightarrow> v | None \<Rightarrow> NaN),
             relative = (case rel of Some r \<Rightarrow> r | None \<Rightarrow> NaN)\<rparr> series
      | Some existing \<Rightarrow>
          AList.update ts
            (existing\<lparr>value := (case val of Some v \<Rightarrow> v | None \<Rightarrow> value existing),
                      relative := (case rel of Some r \<Rightarrow> r | None \<Rightarrow> relative existing)\<rparr>)
            series)"

text \<open>\<^verbatim>\<open>meters.setdefault(meter_id, OrderedDict())\<close>: the store with the key present.\<close>

definition setdefault :: "AllMeters \<Rightarrow> string \<Rightarrow> AllMeters" where
  "setdefault meters meter_id =
     (case map_of meters meter_id of None \<Rightarrow> AList.update meter_id [] meters | Some s \<Rightarrow> meters)"

definition get_series :: "AllMeters \<Rightarrow> string \<Rightarrow> MeterSeries" where
  "get_series meters meter_id = (case map_of meters meter_id of None \<Rightarrow> [] | Some s \<Rightarrow> s)"

text \<open>
  \<^verbatim>\<open>series = meters.setdefault(meter_id, OrderedDict())\<close> followed by
  \<^verbatim>\<open>add_or_update_messwert(series, ts, ...)\<close>: the series object is the one stored in
  \<open>meters\<close>, so the store holds the updated series afterwards.
\<close>

definition merge_into :: "AllMeters \<Rightarrow> string \<Rightarrow> int \<Rightarrow> pyfloat option \<Rightarrow> pyfloat option \<Rightarrow> AllMeters" where
  "merge_into meters meter_id ts val rel =
     AList.update meter_id (add_or_update_messwert (get_series meters meter_id) ts val rel) meters"

section \<open>Dialect B: \<^verbatim>\<open>parse_sdat_file\<close>\<close>

definition ns_candidates :: "string list" where
  "ns_candidates = [''rsm'', ''h1'', ''ns0'', ''ns1'', []]"

text \<open>\<^verbatim>\<open>f"{p}:{suffix}" if p else suffix\<close>.\<close>

definition qualify :: "string \<Rightarrow> string \<Rightarrow> string" where
  "qualify p suffix = (if p \<noteq> [] then p @ '':'' @ suffix else suffix)"

text \<open>
  The body of \<^verbatim>\<open>find_text\<close> for the tags in the order the two nested loops visit them:
  the stripped text of the first element found whose text is not empty.
\<close>

fun find_text_tags :: "xml \<Rightarrow> string list \<Rightarrow> error + string option" where
  "find_text_tags root' [] = Inr None"
| "find_text_tags root' (tag # tags) =
     (case find_elem root' tag of
        Inl err \<Rightarrow> Inl err
      | Inr None \<Rightarrow> find_text_tags root' tags
      | Inr (Some el) \<Rightarrow>
          if truthy (xtext el) then Inr (Some (strip (str_of (xtext el))))
          else find_text_tags root' tags)"

definition find_text :: "xml \<Rightarrow> string list \<Rightarrow> error + string option" where
  "find_text root' tag_suffixes =
     find_text_tags root' (concat (map (\<lambda>p. map (qualify p) tag_suffixes) ns_candidates))"

text \<open>\<^verbatim>\<open>find_text(a) or find_text(b)\<close>: the second call is made only when the first result
  is false.\<close>

definition find_text_or :: "xml \<Rightarrow> string list \<Rightarrow> string list \<Rightarrow> error + string option" where
  "find_text_or root' a b =
     (case find_text root' a of
        Inl err \<Rightarrow> Inl err
      | Inr t \<Rightarrow> if truthy t then Inr t else find_text root' b)"

text \<open>\<^verbatim>\<open>re.search(r"ID(\d+)", s)\<close>: the digits of the first \<^verbatim>\<open>ID\<close> that digits follow.\<close>

fun search_id :: "string \<Rightarrow> string option" where
  "search_id [] = None"
| "search_id (c # cs) =
     (if startswith (c # cs) ''ID'' \<and> takeWhile is_digit (drop 1 cs) \<noteq> []
      then Some (takeWhile is_digit (drop 1 cs))
      else search_id cs)"

text \<open>Lines 147 to 157: the step as a timedelta, from the count and the unit.\<close>

definition sdat_step :: "string \<Rightarrow> int \<Rightarrow> error + int" where
  "sdat_step res_unit resolution =
     (let unit = upper res_unit in
      if startswith unit ''MIN'' then mk_timedelta (resolution * 60 * 1000000)
      else if startswith unit ''H'' then mk_timedelta (resolution * 3600 * 1000000)
      else if startswith unit ''S'' then mk_timedelta (resolution * 1000000)
      else mk_timedelta (resolution * 60 * 1000000))"

text \<open>Lines 160 to 163: the observations found under each candidate prefix, in turn.\<close>

fun find_observations :: "xml \<Rightarrow> string list \<Rightarrow> error + xml list" where
  "find_observations root' [] = Inr []"
| "find_observations root' (p # ps) =
     (case findall root' (qualify p ''Observation'') of
        Inl err \<Rightarrow> Inl err
      | Inr xs \<Rightarrow>
          (case find_observations root' ps of
             Inl err \<Rightarrow> Inl err
           | Inr ys \<Rightarrow> Inr (xs @ ys)))"

text \<open>
  Lines 170 to 191, the body of the loop for one observation: the texts of its
  \<^verbatim>\<open>Sequence\<close> and \<^verbatim>\<open>Volume\<close>, looked up under each candidate prefix as \<^verbatim>\<open>find_text\<close> does;
  an observation without both, or with one that is not a number, is skipped.
\<close>

definition sdat_observation :: "int \<Rightarrow> int \<Rightarrow> xml \<Rightarrow> MeterSeries \<Rightarrow> error + MeterSeries" where
  "sdat_observation start_dt step obs series =
     (case find_text obs [''Sequence''] of
        Inl err \<Rightarrow> Inl err
      | Inr seq_text \<Rightarrow>
          (case find_text obs [''Volume''] of
             Inl err \<Rightarrow> Inl err
           | Inr vol_text \<Rightarrow>
               if \<not> truthy seq_text \<or> \<not> truthy vol_text then Inr series
               else
                 (case py_int (str_of seq_text) of
                    None \<Rightarrow> Inr series
                  | Some seq \<Rightarrow>
                      (case py_float (replace_comma (str_of vol_text)) of
                         None \<Rightarrow> Inr series
                       | Some vol \<Rightarrow>
                           (case mk_timedelta ((seq - 1) * step) of
                              Inl err \<Rightarrow> Inl err
                            | Inr td \<Rightarrow>
                                (case datetime_add start_dt td of
                                   Inl err \<Rightarrow> Inl err
                                 | Inr ts \<Rightarrow>
                                     Inr (add_or_update_messwert series ts None (Some vol))))))))"

fun sdat_observations :: "int \<Rightarrow> int \<Rightarrow> xml list \<Rightarrow> MeterSeries \<Rightarrow> error + MeterSeries" where
  "sdat_observations start_dt step [] series = Inr series"
| "sdat_observations start_dt step (obs # rest) series =
     (case sdat_observation start_dt step obs series of
        Inl err \<Rightarrow> Inl err
      | Inr series' \<Rightarrow> sdat_observations start_dt step rest series')"

text \<open>
  Lines 141 to 193, after the texts have been read: the \<^verbatim>\<open>try\<close> around the start instant
  and the resolution returns \<^verbatim>\<open>False\<close> on any exception; the rest is not guarded.
\<close>

definition sdat_body ::
  "xml \<Rightarrow> string \<Rightarrow> string \<Rightarrow> string \<Rightarrow> string \<Rightarrow> AllMeters \<Rightarrow> error + bool \<times> AllMeters" where
  "sdat_body root' meter_id start_text res_value res_unit meters =
     (case ensure_datetime_utc start_text of
        Inl err \<Rightarrow> Inr (False, meters)
      | Inr start_dt \<Rightarrow>
          (case py_int res_value of
             None \<Rightarrow> Inr (False, meters)
           | Some resolution \<Rightarrow>
               (case sdat_step res_unit resolution of
                  Inl err \<Rightarrow> Inl err
                | Inr step \<Rightarrow>
                    (case find_observations root' ns_candidates of
                       Inl err \<Rightarrow> Inl err
                     | Inr observations \<Rightarrow>
                         if observations = [] then Inr (False, meters)
                         else
                           (case sdat_observations start_dt step observations
                                   (get_series (setdefault meters meter_id) meter_id) of
                              Inl err \<Rightarrow> Inl err
                            | Inr series \<Rightarrow>
                                Inr (True, AList.update meter_id series
                                             (setdefault meters meter_id)))))))"

text \<open>Lines 132 to 139: the four texts, and \<^verbatim>\<open>False\<close> when one the parser needs is missing.\<close>

definition sdat_header :: "xml \<Rightarrow> string \<Rightarrow> AllMeters \<Rightarrow> error + bool \<times> AllMeters" where
  "sdat_header root' meter_id meters =
     (case find_text_or root' [''StartDateTime''] [''StartTime'', ''Start''] of
        Inl err \<Rightarrow> Inl err
      | Inr start_text \<Rightarrow>
          (case find_text_or root' [''EndDateTime''] [''EndTime'', ''End''] of
             Inl err \<Rightarrow> Inl err
           | Inr end_text \<Rightarrow>
               (case find_text root' [''Resolution''] of
                  Inl err \<Rightarrow> Inl err
                | Inr res_value \<Rightarrow>
                    (case find_text root' [''Unit''] of
                       Inl err \<Rightarrow> Inl err
                     | Inr res_unit \<Rightarrow>
                         if \<not> truthy start_text \<or> \<not> truthy res_value \<or> \<not> truthy res_unit
                         then Inr (False, meters)
                         else sdat_body root' meter_id (str_of start_text) (str_of res_value)
                                (str_of res_unit) meters))))"

definition parse_sdat_file :: "xml_file \<Rightarrow> AllMeters \<Rightarrow> error + bool \<times> AllMeters" where
  "parse_sdat_file f meters =
     (case f of
        Malformed \<Rightarrow> Inr (False, meters)
      | WellFormed root' \<Rightarrow>
          if \<not> contains (text_content root') ''DocumentID''
             \<and> \<not> contains (text_content root') ''Interval''
          then Inr (False, meters)
          else
            (case find_text root' [''DocumentID''] of
               Inl err \<Rightarrow> Inl err
             | Inr document_id \<Rightarrow>
                 if \<not> truthy document_id then Inr (False, meters)
                 else
                   (case search_id (str_of document_id) of
                      None \<Rightarrow> Inr (False, meters)
                    | Some digits \<Rightarrow> sdat_header root' (''ID'' @ digits) meters)))"

section \<open>Dialect A: \<^verbatim>\<open>parse_esl_file\<close>\<close>

record esl_sums =
  sum_import :: pyfloat
  sum_export :: pyfloat
  import_present :: bool
  export_present :: bool

text \<open>Lines 228 to 242: the loop over the value rows of one period.\<close>

fun value_rows :: "xml list \<Rightarrow> esl_sums \<Rightarrow> esl_sums" where
  "value_rows [] acc = acc"
| "value_rows (vr # vrs) acc =
     (let obis = str_of (map_of (attrib vr) ''obis'');
          val_text = str_of (py_or (py_or (map_of (attrib vr) ''value'') (map_of (attrib vr) ''val''))
                               (Some []))
      in case py_float (replace_comma val_text) of
           None \<Rightarrow> value_rows vrs acc
         | Some val \<Rightarrow>
             if list_ex (\<lambda>suffix. contains obis suffix) OBIS_IMPORT
             then value_rows vrs (acc\<lparr>sum_import := fadd (sum_import acc) val, import_present := True\<rparr>)
             else if list_ex (\<lambda>suffix. contains obis suffix) OBIS_EXPORT
             then value_rows vrs (acc\<lparr>sum_export := fadd (sum_export acc) val, export_present := True\<rparr>)
             else value_rows vrs acc)"

text \<open>
  Lines 217 to 249, the body of the loop for one period.  The call of
  \<^verbatim>\<open>ensure_datetime_utc\<close> on line 221 is not inside a \<^verbatim>\<open>try\<close>: its exception leaves the
  function.
\<close>

definition esl_period :: "xml \<Rightarrow> AllMeters \<Rightarrow> error + AllMeters" where
  "esl_period tp meters =
     (let end_attr = py_or (map_of (attrib tp) ''end'') (map_of (attrib tp) ''End'') in
      if \<not> truthy end_attr then Inr meters
      else
        (case ensure_datetime_utc (str_of end_attr) of
           Inl err \<Rightarrow> Inl err
         | Inr ts \<Rightarrow>
             (case findall tp ''ValueRow'' of
                Inl err \<Rightarrow> Inl err
              | Inr vrs \<Rightarrow>
                  let acc = value_rows vrs
                              \<lparr>sum_import = Finite 0, sum_export = Finite 0,
                               import_present = False, export_present = False\<rparr>;
                      m1 = (if import_present acc
                            then merge_into meters METER_IMPORT_ID ts (Some (sum_import acc)) None
                            else meters);
                      m2 = (if export_present acc
                            then merge_into m1 METER_EXPORT_ID ts (Some (sum_export acc)) None
                            else m1)
                  in Inr m2)))"

fun esl_periods :: "xml list \<Rightarrow> AllMeters \<Rightarrow> error + AllMeters" where
  "esl_periods [] meters = Inr meters"
| "esl_periods (tp # tps) meters =
     (case esl_period tp meters of
        Inl err \<Rightarrow> Inl err
      | Inr meters' \<Rightarrow> esl_periods tps meters')"

definition parse_esl_file :: "xml_file \<Rightarrow> AllMeters \<Rightarrow> error + bool \<times> AllMeters" where
  "parse_esl_file f meters =
     (case f of
        Malformed \<Rightarrow> Inr (False, meters)
      | WellFormed root' \<Rightarrow>
          (case findall root' ''TimePeriod'' of
             Inl err \<Rightarrow> Inl err
           | Inr time_periods \<Rightarrow>
               if time_periods = [] then Inr (False, meters)
               else
                 (case esl_periods time_periods meters of
                    Inl err \<Rightarrow> Inl err
                  | Inr meters' \<Rightarrow> Inr (True, meters'))))"

section \<open>\<^verbatim>\<open>load_all_data\<close>\<close>

text \<open>
  Lines 284 to 287 for one file, with the two parsers as arguments: the second is called
  only when the first returned \<^verbatim>\<open>False\<close>; an exception of either leaves the loader.
\<close>

type_synonym parser = "xml_file \<Rightarrow> AllMeters \<Rightarrow> error + bool \<times> AllMeters"

definition route :: "parser \<Rightarrow> parser \<Rightarrow> xml_file \<Rightarrow> AllMeters \<Rightarrow> error + AllMeters" where
  "route parser1 parser2 f meters =
     (case parser1 f meters of
        Inl err \<Rightarrow> Inl err
      | Inr (parsed, meters') \<Rightarrow>
          if \<not> parsed then
            (case parser2 f meters' of
               Inl err \<Rightarrow> Inl err
             | Inr (_, meters'') \<Rightarrow> Inr meters'')
          else Inr meters')"

definition load_file :: "xml_file \<Rightarrow> AllMeters \<Rightarrow> error + AllMeters" where
  "load_file = route parse_esl_file parse_sdat_file"

text \<open>The loop over the \<^verbatim>\<open>.xml\<close> files in the order the directory walk gives them.\<close>

fun fold_files :: "xml_file list \<Rightarrow> AllMeters \<Rightarrow> error + AllMeters" where
  "fold_files [] meters = Inr meters"
| "fold_files (f # fs) meters =
     (case load_file f meters of
        Inl err \<Rightarrow> Inl err
      | Inr meters' \<Rightarrow> fold_files fs meters')"

text \<open>Lines 291 to 293: every series sorted by its keys (\<^verbatim>\<open>sorted\<close> is stable).\<close>

definition sort_series :: "AllMeters \<Rightarrow> AllMeters" where
  "sort_series meters = map (\<lambda>(meter_id, series). (meter_id, sort_key fst series)) meters"

definition load_all_data :: "xml_file list \<Rightarrow> error + AllMeters" where
  "load_all_data files =
     (case fold_files files [] of
        Inl err \<Rightarrow> Inl err
      | Inr meters \<Rightarrow> Inr (sort_series meters))"

section \<open>Payloads\<close>

text \<open>
  A payload is its labels and the \<^verbatim>\<open>data\<close> of its two datasets, the export meter first;
  \<open>None\<close> is Python's \<^verbatim>\<open>None\<close> (JSON \<^verbatim>\<open>null\<close>).  The labels stay instants: their ISO text
  and the fixed chart attributes belong to the rendering.
\<close>

record payload =
  labels :: "int list"
  export_data :: "pyfloat option list"
  import_data :: "pyfloat option list"

text \<open>\<^verbatim>\<open>sorted(label_set)\<close> for the union of the key sets of the given series.\<close>

definition sorted_labels :: "int list \<Rightarrow> int list" where
  "sorted_labels keys = sort (remdups keys)"

definition series_values :: "AllMeters \<Rightarrow> int list \<Rightarrow> string \<Rightarrow> pyfloat option list" where
  "series_values meters lbls meter_id =
     map (\<lambda>ts. case map_of (get_series meters meter_id) ts of
                  Some m \<Rightarrow> Some (value m)
                | None \<Rightarrow> None) lbls"

definition build_chartjs_payload :: "AllMeters \<Rightarrow> payload" where
  "build_chartjs_payload meters =
     (let lbls = sorted_labels (concat (map (\<lambda>(meter_id, series). map fst series) meters))
      in \<lparr>labels = lbls,
          export_data = series_values meters lbls METER_EXPORT_ID,
          import_data = series_values meters lbls METER_IMPORT_ID\<rparr>)"

text \<open>
  \<^verbatim>\<open>series[t].value\<close> for a key \<open>t\<close> of the series.  \<^verbatim>\<open>series_diffs\<close> reads the series
  only at its own keys, where the lookup succeeds.
\<close>

definition value_at :: "MeterSeries \<Rightarrow> int \<Rightarrow> pyfloat" where
  "value_at series t = (case map_of series t of Some m \<Rightarrow> value m | None \<Rightarrow> NaN)"

text \<open>Lines 352 to 359: one difference, \<^verbatim>\<open>None\<close> when it is NaN or negative.\<close>

definition diff_of :: "pyfloat \<Rightarrow> pyfloat \<Rightarrow> pyfloat option" where
  "diff_of v_prev v_curr =
     (let diff = fsub v_curr v_prev
      in if \<not> feq diff diff \<or> flt diff (Finite 0) then None else Some diff)"

text \<open>The loop of \<^verbatim>\<open>series_diffs\<close> over the sorted timestamps, from index 1.\<close>

fun diffs_loop :: "MeterSeries \<Rightarrow> int list \<Rightarrow> (int \<times> pyfloat option) list" where
  "diffs_loop series (t_prev # t_curr # ts) =
     (t_curr, diff_of (value_at series t_prev) (value_at series t_curr))
       # diffs_loop series (t_curr # ts)"
| "diffs_loop series ts = []"

definition series_diffs :: "MeterSeries \<Rightarrow> (int \<times> pyfloat option) list" where
  "series_diffs series = diffs_loop series (sort (map fst series))"

text \<open>\<^verbatim>\<open>diffs_map.get(ts)\<close>: \<^verbatim>\<open>None\<close> for a missing key and for a stored \<^verbatim>\<open>None\<close>.\<close>

definition diffs_get :: "(int \<times> pyfloat option) list \<Rightarrow> int \<Rightarrow> pyfloat option" where
  "diffs_get diffs_map ts = (case map_of diffs_map ts of None \<Rightarrow> None | Some d \<Rightarrow> d)"

definition build_consumption_payload :: "AllMeters \<Rightarrow> payload" where
  "build_consumption_payload meters =
     (let import_diffs = series_diffs (get_series meters METER_IMPORT_ID);
          export_diffs = series_diffs (get_series meters METER_EXPORT_ID);
          lbls = sorted_labels (map fst import_diffs @ map fst export_diffs)
      in \<lparr>labels = lbls,
          export_data = map (diffs_get export_diffs) lbls,
          import_data = map (diffs_get import_diffs) lbls\<rparr>)"

section \<open>Definitions for the statements and proofs\<close>

subsection \<open>Instants\<close>

text \<open>The instant a parsed datetime denotes: its fields minus its UTC offset, a naive value
  counting as UTC.\<close>

definition instant_of :: "datetime \<Rightarrow> int" where
  "instant_of dt = wall_us dt - (case tzinfo dt of None \<Rightarrow> 0 | Some off \<Rightarrow> off)"

definition valid_dt :: "datetime \<Rightarrow> bool" where
  "valid_dt dt =
     valid_fields (year dt) (month dt) (day dt) (hour dt) (minute dt) (second dt) (microsecond dt)"

subsection \<open>Example documents\<close>

text \<open>A Dialect A document: a root with the given period containers.\<close>

definition esl_doc :: "xml list \<Rightarrow> xml_file" where
  "esl_doc periods = WellFormed (Element ''ESLBillingData'' [] None
     [Element ''Meter'' [] None periods None] None)"

definition esl_period_el :: "string \<Rightarrow> xml list \<Rightarrow> xml" where
  "esl_period_el end_attr rows = Element ''TimePeriod'' [(''end'', end_attr)] None rows None"

definition esl_row :: "string \<Rightarrow> string \<Rightarrow> xml" where
  "esl_row obis val = Element ''ValueRow'' [(''obis'', obis), (''value'', val)] None [] None"






text \<open>A Dialect B document with the given \<^verbatim>\<open>DocumentID\<close> text and observations.\<close>

definition sdat_doc :: "string \<Rightarrow> xml list \<Rightarrow> xml_file" where
  "sdat_doc document_id observations = WellFormed (Element ''ValidatedMeteredData'' [] None
     ([Element ''DocumentID'' [] (Some document_id) [] None,
       Element ''StartDateTime'' [] (Some ''2024-01-01T00:00:00Z'') [] None,
       Element ''Resolution'' [] (Some ''15'') [] None,
       Element ''Unit'' [] (Some ''MIN'') [] None] @ observations) None)"

definition sdat_obs :: "string \<Rightarrow> string \<Rightarrow> xml" where
  "sdat_obs seq vol = Element ''Observation'' [] None
     [Element ''Sequence'' [] (Some seq) [] None, Element ''Volume'' [] (Some vol) [] None] None"

subsection \<open>Sequences of item updates on an insertion-ordered dictionary\<close>

text \<open>
  \<open>upsert k d f\<close> is the update both \<^verbatim>\<open>add_or_update_messwert\<close> and
  \<^verbatim>\<open>meters.setdefault(...)\<close> followed by a mutation perform: the value at key \<open>k\<close>
  (or the default \<open>d\<close> when the key is new) is replaced by its image under \<open>f\<close>.
\<close>

definition upsert :: "'k \<Rightarrow> 'v \<Rightarrow> ('v \<Rightarrow> 'v) \<Rightarrow> ('k \<times> 'v) list \<Rightarrow> ('k \<times> 'v) list" where
  "upsert k d f al = AList.update k (f (case map_of al k of None \<Rightarrow> d | Some x \<Rightarrow> x)) al"

definition upserts ::
  "('k \<Rightarrow> 'v) \<Rightarrow> ('k \<times> ('v \<Rightarrow> 'v)) list \<Rightarrow> ('k \<times> 'v) list \<Rightarrow> ('k \<times> 'v) list" where
  "upserts d ops al = fold (\<lambda>(k, f). upsert k (d k) f) ops al"

definition add_key :: "'k \<Rightarrow> 'k list \<Rightarrow> 'k list" where
  "add_key k ks = (if k \<in> set ks then ks else ks @ [k])"

text \<open>The combined effect of a sequence of updates on the value at one key.\<close>

definition comp_at :: "('k \<times> ('v \<Rightarrow> 'v)) list \<Rightarrow> 'k \<Rightarrow> 'v \<Rightarrow> 'v" where
  "comp_at ops k x = fold (\<lambda>(k', f) y. if k' = k then f y else y) ops x"

subsection \<open>The store as a sequence of updates\<close>

text \<open>A reading that has no field set, and the update that supplies the absolute value.\<close>

definition blank :: "int \<Rightarrow> Messwert" where
  "blank ts = \<lparr>timestamp = ts, value = NaN, relative = NaN\<rparr>"

definition apply_fields :: "pyfloat option \<Rightarrow> pyfloat option \<Rightarrow> Messwert \<Rightarrow> Messwert" where
  "apply_fields val rel m =
     m\<lparr>value := (case val of Some v \<Rightarrow> v | None \<Rightarrow> value m),
       relative := (case rel of Some r \<Rightarrow> r | None \<Rightarrow> relative m)\<rparr>"

text \<open>A store is well formed when no key occurs twice, in the store and in each series: a
  Python dictionary has no other state.\<close>

definition wf_store :: "AllMeters \<Rightarrow> bool" where
  "wf_store meters =
     (distinct (map fst meters) \<and> list_all (\<lambda>p. distinct (map fst (snd p))) meters)"

text \<open>The updates of one period and of a list of periods, as (meter, timestamp, value).\<close>

type_synonym reading_op = "string \<times> int \<times> pyfloat"

definition apply_ops :: "reading_op list \<Rightarrow> AllMeters \<Rightarrow> AllMeters" where
  "apply_ops ops meters = fold (\<lambda>(mid, ts, v) m. merge_into m mid ts (Some v) None) ops meters"

definition esl_period_ops :: "xml \<Rightarrow> error + reading_op list" where
  "esl_period_ops tp =
     (let end_attr = py_or (map_of (attrib tp) ''end'') (map_of (attrib tp) ''End'') in
      if \<not> truthy end_attr then Inr []
      else
        (case ensure_datetime_utc (str_of end_attr) of
           Inl err \<Rightarrow> Inl err
         | Inr ts \<Rightarrow>
             (case findall tp ''ValueRow'' of
                Inl err \<Rightarrow> Inl err
              | Inr vrs \<Rightarrow>
                  let acc = value_rows vrs
                              \<lparr>sum_import = Finite 0, sum_export = Finite 0,
                               import_present = False, export_present = False\<rparr>
                  in Inr ((if import_present acc then [(METER_IMPORT_ID, ts, sum_import acc)] else [])
                          @ (if export_present acc then [(METER_EXPORT_ID, ts, sum_export acc)] else [])))))"

fun esl_ops :: "xml list \<Rightarrow> error + reading_op list" where
  "esl_ops [] = Inr []"
| "esl_ops (tp # tps) =
     (case esl_period_ops tp of
        Inl err \<Rightarrow> Inl err
      | Inr ops \<Rightarrow>
          (case esl_ops tps of
             Inl err \<Rightarrow> Inl err
           | Inr ops' \<Rightarrow> Inr (ops @ ops')))"

definition store_ops :: "reading_op list \<Rightarrow> (string \<times> (MeterSeries \<Rightarrow> MeterSeries)) list" where
  "store_ops ops = map (\<lambda>(mid, ts, v). (mid, upsert ts (blank ts) (apply_fields (Some v) None))) ops"

definition series_ops :: "string \<Rightarrow> reading_op list \<Rightarrow> (int \<times> (Messwert \<Rightarrow> Messwert)) list" where
  "series_ops mid ops =
     map (\<lambda>(mid', ts, v). (ts, apply_fields (Some v) None)) (filter (\<lambda>(mid', ts, v). mid' = mid) ops)"

subsection \<open>The readings of a period container\<close>









subsection \<open>A Dialect A document with Dialect B tokens\<close>

text \<open>A Dialect A document with no usable period that holds the tokens of Dialect B.\<close>

definition esl_with_sdat_tokens :: xml_file where
  "esl_with_sdat_tokens = WellFormed (Element ''ESLBillingData'' [] None
     [Element ''TimePeriod'' [] None [] None,
      Element ''DocumentID'' [] (Some ''DocumentID Interval ID742'') [] None] None)"

section \<open>The timestamp normalizer produces UTC instants\<close>

lemma mk_datetime_valid: "mk_datetime y mo d h mi s us tz = Some dt \<Longrightarrow> valid_dt dt"
  by (auto simp: mk_datetime_def valid_dt_def split: if_splits)

lemma fromisoformat_valid: "fromisoformat s = Some dt \<Longrightarrow> valid_dt dt"
  by (auto simp: fromisoformat_def split: option.splits if_splits prod.splits
      dest: mk_datetime_valid)

lemma strptime_valid: "strptime sep s = Some dt \<Longrightarrow> valid_dt dt"
  by (auto simp: strptime_def bind_eq_Some_conv split: if_splits prod.splits
      dest: mk_datetime_valid)

lemma parse_datetime_valid: "parse_datetime s = Inr dt \<Longrightarrow> valid_dt dt"
  by (auto simp: parse_datetime_def Let_def split: option.splits
      dest: fromisoformat_valid strptime_valid)

lemma div_step:
  fixes y n :: int
  assumes "0 < n"
  shows "y div n = (y - 1) div n + (if y mod n = 0 then 1 else 0)"
proof (cases "y mod n = 0")
  case True
  have y: "y = n * (y div n)"
    using True mult_div_mod_eq [of n y] by linarith
  have "n * (y div n - 1) = n * (y div n) - n"
    by (simp add: algebra_simps)
  then have "y - 1 = n * (y div n - 1) + (n - 1)"
    using y by linarith
  then have "(y - 1) div n = y div n - 1"
    using assms by (intro int_div_pos_eq [where r = "n - 1"]) simp_all
  with True show ?thesis by simp
next
  case False
  have r: "0 < y mod n" "y mod n < n"
    using assms False pos_mod_sign [of n y] pos_mod_bound [of n y] by linarith+
  have "y - 1 = n * (y div n) + (y mod n - 1)"
    using mult_div_mod_eq [of n y] by linarith
  then have "(y - 1) div n = y div n"
    using r by (intro int_div_pos_eq [where r = "y mod n - 1"]) simp_all
  with False show ?thesis by simp
qed

lemma mod_400_100: "(y::int) mod 400 = 0 \<Longrightarrow> y mod 100 = 0"
  using mod_mod_cancel [of 100 400 y] by simp

lemma mod_100_4: "(y::int) mod 100 = 0 \<Longrightarrow> y mod 4 = 0"
  using mod_mod_cancel [of 4 100 y] by simp

lemma leap_day_arith:
  fixes y :: int
  assumes "y div 4 = (y - 1) div 4 + (if y mod 4 = 0 then 1 else 0)"
    and "y div 100 = (y - 1) div 100 + (if y mod 100 = 0 then 1 else 0)"
    and "y div 400 = (y - 1) div 400 + (if y mod 400 = 0 then 1 else 0)"
    and "y mod 400 = 0 \<Longrightarrow> y mod 100 = 0"
    and "y mod 100 = 0 \<Longrightarrow> y mod 4 = 0"
  shows "y * 365 + y div 4 - y div 100 + y div 400 =
         y * 365 - 365 + (y - 1) div 4 - (y - 1) div 100 + (y - 1) div 400 + 365
           + (if y mod 4 = 0 \<and> (y mod 100 \<noteq> 0 \<or> y mod 400 = 0) then 1 else 0)"
  unfolding assms(1-3) using assms(4,5)
  by (cases "y mod 4 = 0"; cases "y mod 100 = 0"; cases "y mod 400 = 0") simp_all

lemma days_before_year_step:
  "days_before_year (y + 1) = days_before_year y + 365 + (if is_leap y then 1 else 0)"
proof -
  have a: "days_before_year (y + 1) = y * 365 + y div 4 - y div 100 + y div 400"
    by (simp add: days_before_year_def)
  have b: "days_before_year y = y * 365 - 365 + (y - 1) div 4 - (y - 1) div 100 + (y - 1) div 400"
    by (simp add: days_before_year_def left_diff_distrib)
  have d4: "y div 4 = (y - 1) div 4 + (if y mod 4 = 0 then 1 else 0)"
    by (rule div_step) simp
  have d100: "y div 100 = (y - 1) div 100 + (if y mod 100 = 0 then 1 else 0)"
    by (rule div_step) simp
  have d400: "y div 400 = (y - 1) div 400 + (if y mod 400 = 0 then 1 else 0)"
    by (rule div_step) simp
  show ?thesis
    unfolding a b is_leap_def
    by (rule leap_day_arith [OF d4 d100 d400 mod_400_100 mod_100_4])
qed

lemma days_before_year_mono: "y \<le> z \<Longrightarrow> days_before_year y \<le> days_before_year z"
proof (induction z rule: int_ge_induct)
  case base
  show ?case by simp
next
  case (step i)
  have "days_before_year i \<le> days_before_year (i + 1)"
    by (simp add: days_before_year_step)
  with step show ?case by linarith
qed

lemma days_before_year_1: "days_before_year 1 = 0"
  by (simp add: days_before_year_def)

lemma days_before_year_10000: "days_before_year 10000 = 3652059"
  by (simp add: days_before_year_def)

lemma month_cases:
  "1 \<le> m \<Longrightarrow> m \<le> 12 \<Longrightarrow>
   m = 1 \<or> m = 2 \<or> m = 3 \<or> m = 4 \<or> m = 5 \<or> m = 6 \<or> m = 7 \<or> m = 8 \<or> m = 9 \<or> m = 10
     \<or> m = 11 \<or> m = (12::int)"
  by presburger

lemma day_of_year_range:
  assumes "1 \<le> m" "m \<le> 12" "1 \<le> d" "d \<le> days_in_month y m"
  shows "1 \<le> days_before_month y m + d"
    and "days_before_month y m + d \<le> 365 + (if is_leap y then 1 else 0)"
  using month_cases [OF assms(1,2)] assms(3,4)
  by (auto simp: days_before_month_def days_in_month_def)

lemma ymd2ord_range:
  assumes "1 \<le> y" "y \<le> 9999" "1 \<le> m" "m \<le> 12" "1 \<le> d" "d \<le> days_in_month y m"
  shows "1 \<le> ymd2ord y m d" and "ymd2ord y m d \<le> 3652059"
proof -
  have lo: "0 \<le> days_before_year y"
    using days_before_year_mono [of 1 y] assms(1) by (simp add: days_before_year_1)
  have "days_before_year (y + 1) \<le> days_before_year 10000"
    using assms(2) by (intro days_before_year_mono) simp
  then have hi: "days_before_year y + 365 + (if is_leap y then 1 else 0) \<le> 3652059"
    by (simp add: days_before_year_step days_before_year_10000)
  note doy = day_of_year_range [OF assms(3-6)]
  show "1 \<le> ymd2ord y m d"
    using lo doy(1) by (simp add: ymd2ord_def)
  show "ymd2ord y m d \<le> 3652059"
    using hi doy(2) unfolding ymd2ord_def by linarith
qed

lemma wall_us_range:
  assumes "valid_dt dt"
  shows "0 \<le> wall_us dt" and "wall_us dt \<le> max_us"
proof -
  from assms have v:
    "1 \<le> year dt" "year dt \<le> 9999" "1 \<le> month dt" "month dt \<le> 12"
    "1 \<le> day dt" "day dt \<le> days_in_month (year dt) (month dt)"
    "0 \<le> hour dt" "hour dt < 24" "0 \<le> minute dt" "minute dt < 60"
    "0 \<le> second dt" "second dt < 60" "0 \<le> microsecond dt" "microsecond dt < 1000000"
    by (simp_all add: valid_dt_def valid_fields_def)
  define ord0 where "ord0 = ymd2ord (year dt) (month dt) (day dt)"
  define secs where "secs = (ord0 - 1) * 86400 + hour dt * 3600 + minute dt * 60 + second dt"
  have ord: "1 \<le> ord0" "ord0 \<le> 3652059"
    using ymd2ord_range [OF v(1-6)] by (simp_all add: ord0_def)
  have s0: "0 \<le> secs"
    using ord(1) v(7,9,11) unfolding secs_def
    by (auto intro!: add_nonneg_nonneg mult_nonneg_nonneg)
  have s1: "secs \<le> 315537897599"
    using ord(2) v(8,10,12) unfolding secs_def by (simp add: left_diff_distrib)
  have w: "wall_us dt = secs * 1000000 + microsecond dt"
    by (simp add: wall_us_def secs_def ord0_def)
  show "0 \<le> wall_us dt"
    using s0 v(13) unfolding w by (auto intro!: add_nonneg_nonneg mult_nonneg_nonneg)
  show "wall_us dt \<le> max_us"
    using s1 v(14) unfolding w max_us_def by simp
qed

lemma to_utc_instant:
  assumes "valid_dt dt"
  shows "to_utc dt =
           (if 0 \<le> instant_of dt \<and> instant_of dt \<le> max_us then Inr (instant_of dt)
            else Inl OverflowError)"
  using wall_us_range [OF assms]
  by (auto simp: to_utc_def instant_of_def Let_def split: option.splits)

text \<open>
  C7.  Two timestamp strings that parse and denote the same instant, whatever their zones,
  are normalized to the same result by \<^verbatim>\<open>ensure_datetime_utc\<close>; and the key a string is
  normalized to is the UTC instant its parsed value denotes.
\<close>

theorem normalizer_same_instant_same_key:
  assumes "parse_datetime s1 = Inr d1"
    and "parse_datetime s2 = Inr d2"
    and "instant_of d1 = instant_of d2"
  shows "ensure_datetime_utc s1 = ensure_datetime_utc s2
         \<and> (\<forall>k. ensure_datetime_utc s1 = Inr k \<longrightarrow> k = instant_of d1)"
  using assms
  by (simp add: ensure_datetime_utc_def to_utc_instant parse_datetime_valid)

lemma parse_zulu:
  "parse_datetime ''2024-01-01T00:00:00Z'' =
     Inr \<lparr>year = 2024, month = 1, day = 1, hour = 0, minute = 0, second = 0, microsecond = 0,
          tzinfo = Some 0\<rparr>"
  by code_simp

lemma parse_plus_one:
  "parse_datetime ''2024-01-01T01:00:00+01:00'' =
     Inr \<lparr>year = 2024, month = 1, day = 1, hour = 1, minute = 0, second = 0, microsecond = 0,
          tzinfo = Some 3600000000\<rparr>"
  by code_simp

lemma instants_agree:
  "instant_of \<lparr>year = 2024, month = 1, day = 1, hour = 0, minute = 0, second = 0,
              microsecond = 0, tzinfo = Some 0\<rparr> =
   instant_of \<lparr>year = 2024, month = 1, day = 1, hour = 1, minute = 0, second = 0,
              microsecond = 0, tzinfo = Some 3600000000\<rparr>"
  by code_simp

theorem normalizer_same_instant_same_key_witness:
  "ensure_datetime_utc ''2024-01-01T00:00:00Z'' = ensure_datetime_utc ''2024-01-01T01:00:00+01:00''
   \<and> ensure_datetime_utc ''2024-01-01T00:00:00Z'' = Inr 63839664000000000"
proof -
  have k: "ensure_datetime_utc ''2024-01-01T00:00:00Z'' = Inr 63839664000000000"
    by code_simp
  from normalizer_same_instant_same_key [OF parse_zulu parse_plus_one instants_agree]
  show ?thesis using k by simp
qed

section \<open>Sequences of item updates on an insertion-ordered dictionary\<close>

lemma upsert_keys: "map fst (upsert k d f al) = add_key k (map fst al)"
  by (simp add: upsert_def add_key_def update_keys)

lemma upsert_map_of:
  "map_of (upsert k d f al) = (map_of al)(k \<mapsto> f (case map_of al k of None \<Rightarrow> d | Some x \<Rightarrow> x))"
  by (simp add: upsert_def update_conv')

lemma distinct_upsert: "distinct (map fst al) \<Longrightarrow> distinct (map fst (upsert k d f al))"
  by (simp add: upsert_def distinct_update)

lemma upserts_Nil [simp]: "upserts d [] al = al"
  by (simp add: upserts_def)

lemma upserts_Cons [simp]: "upserts d ((k, f) # ops) al = upserts d ops (upsert k (d k) f al)"
  by (simp add: upserts_def)

lemma comp_at_Nil [simp]: "comp_at [] k x = x"
  by (simp add: comp_at_def)

lemma comp_at_Cons [simp]:
  "comp_at ((k', f) # ops) k x = comp_at ops k (if k' = k then f x else x)"
  by (simp add: comp_at_def)

lemma comp_at_notin: "k \<notin> fst ` set ops \<Longrightarrow> comp_at ops k x = x"
  by (induction ops arbitrary: x) auto

lemma distinct_upserts: "distinct (map fst al) \<Longrightarrow> distinct (map fst (upserts d ops al))"
  by (induction ops arbitrary: al) (auto simp: distinct_upsert)

lemma keys_upserts: "map fst (upserts d ops al) = fold add_key (map fst ops) (map fst al)"
  by (induction ops arbitrary: al) (auto simp: upsert_keys)

lemma set_fold_add_key: "set (fold add_key ks l) = set ks \<union> set l"
  by (induction ks arbitrary: l) (auto simp: add_key_def)

lemma fold_add_key_absorb: "set ks \<subseteq> set l \<Longrightarrow> fold add_key ks l = l"
  by (induction ks arbitrary: l) (auto simp: add_key_def)

lemma fold_add_key_idem: "fold add_key ks (fold add_key ks l) = fold add_key ks l"
  by (rule fold_add_key_absorb) (simp add: set_fold_add_key)

lemma map_of_upserts:
  "map_of (upserts d ops al) k =
     (if k \<in> fst ` set ops
      then Some (comp_at ops k (case map_of al k of None \<Rightarrow> d k | Some x \<Rightarrow> x))
      else map_of al k)"
proof (induction ops arbitrary: al)
  case Nil
  show ?case by simp
next
  case (Cons op ops)
  obtain k0 f0 where op: "op = (k0, f0)" by (cases op)
  show ?case
    unfolding op upserts_Cons Cons.IH
    by (auto simp: upsert_map_of comp_at_notin)
qed

text \<open>Two dictionaries with the same keys in the same order and the same values are equal.\<close>

lemma alist_eqI:
  assumes "distinct (map fst xs)"
    and "map fst xs = map fst ys"
    and "\<And>k. k \<in> set (map fst xs) \<Longrightarrow> map_of xs k = map_of ys k"
  shows "xs = ys"
  using assms
proof (induction xs arbitrary: ys)
  case Nil
  then show ?case by simp
next
  case (Cons x xs)
  then obtain y ys' where ys: "ys = y # ys'" by (cases ys) auto
  from Cons.prems(2) ys have keys: "fst x = fst y" "map fst xs = map fst ys'" by auto
  from Cons.prems(3) [of "fst x"] ys keys have "snd x = snd y"
    by (cases x; cases y) auto
  with keys have xy: "x = y" by (simp add: prod_eq_iff)
  have "xs = ys'"
  proof (rule Cons.IH)
    show "distinct (map fst xs)" using Cons.prems(1) by simp
    show "map fst xs = map fst ys'" by (rule keys)
    fix k assume k: "k \<in> set (map fst xs)"
    with Cons.prems(1) have "k \<noteq> fst x" by (auto simp: image_iff)
    with Cons.prems(3) [of k] k ys xy show "map_of xs k = map_of ys' k"
      by (cases y) (auto split: if_splits)
  qed
  with xy ys show ?case by simp
qed

text \<open>
  Last write wins: when the combined update at every key is idempotent on the value it
  meets, applying the whole sequence a second time changes nothing.
\<close>

lemma upserts_idem:
  assumes dist: "distinct (map fst al)"
    and idem: "\<And>k. k \<in> fst ` set ops \<Longrightarrow>
        comp_at ops k (comp_at ops k (case map_of al k of None \<Rightarrow> d k | Some x \<Rightarrow> x))
          = comp_at ops k (case map_of al k of None \<Rightarrow> d k | Some x \<Rightarrow> x)"
  shows "upserts d ops (upserts d ops al) = upserts d ops al"
proof (rule alist_eqI)
  show "distinct (map fst (upserts d ops (upserts d ops al)))"
    by (intro distinct_upserts dist)
  show "map fst (upserts d ops (upserts d ops al)) = map fst (upserts d ops al)"
    by (simp add: keys_upserts fold_add_key_idem)
  fix k
  show "map_of (upserts d ops (upserts d ops al)) k = map_of (upserts d ops al) k"
    by (simp add: map_of_upserts idem)
qed

section \<open>Exceptions that leave the loader\<close>

text \<open>
  C1.  The claim is that no file content makes \<^verbatim>\<open>load_all_data\<close> raise, a malformed
  timestamp being caught by each parser.  \<^verbatim>\<open>parse_sdat_file\<close> does catch it (lines 141
  to 145), \<^verbatim>\<open>parse_esl_file\<close> does not (line 221): a Dialect A file whose period end is not
  a timestamp makes the whole load raise \<^verbatim>\<open>ValueError\<close>.
\<close>

theorem load_all_data_raises_on_bad_period_end:
  "load_all_data [esl_doc [esl_period_el ''not-a-timestamp'' [esl_row ''1-1:1.8.1'' ''100'']]]
     = Inl ValueError"
  by code_simp

section \<open>Dialect B never emits a reading\<close>

text \<open>
  C8.  The claim is that every valid observation is emitted at
  \<open>start + (seq - 1) * step\<close>.  The first lookup of \<^verbatim>\<open>find_text\<close> is
  \<^verbatim>\<open>root.find(".//rsm:DocumentID")\<close>, which raises \<^verbatim>\<open>SyntaxError\<close> because no namespace
  map is passed; a document that does not reach that lookup was turned away by the test on
  its text content (line 108).  Either way no observation is emitted: the document with one
  valid observation raises when its text holds the word \<^verbatim>\<open>DocumentID\<close>, and is reported
  as not recognized, with an empty store, when it does not.
\<close>

theorem sdat_observation_never_emitted:
  "parse_sdat_file (sdat_doc ''DocumentID_ID742'' [sdat_obs ''1'' ''1.5'']) [] = Inl SyntaxError
   \<and> load_all_data [sdat_doc ''DocumentID_ID742'' [sdat_obs ''1'' ''1.5'']] = Inl SyntaxError
   \<and> parse_sdat_file (sdat_doc ''eslevu121963_BR2294_ID742'' [sdat_obs ''1'' ''1.5'']) []
       = Inr (False, [])
   \<and> load_all_data [sdat_doc ''eslevu121963_BR2294_ID742'' [sdat_obs ''1'' ''1.5'']] = Inr []"
  by code_simp

text \<open>
  C10.  The claim is that a Dialect B document with an identifier, a start and a resolution
  but no observation is reported as not recognized.  Such a document whose text holds the
  word \<^verbatim>\<open>DocumentID\<close> passes the test of line 108 and raises \<^verbatim>\<open>SyntaxError\<close> at the first
  lookup, before line 164 is reached.
\<close>

theorem sdat_without_observations_raises:
  "parse_sdat_file (sdat_doc ''DocumentID_ID742'' []) [] = Inl SyntaxError
   \<and> load_all_data [sdat_doc ''DocumentID_ID742'' []] = Inl SyntaxError"
  by code_simp

section \<open>Consumption derivation\<close>

text \<open>
  C5.  The claim is that a difference that is not finite is reported as null, as the
  docstring of \<^verbatim>\<open>build_consumption_payload\<close> says.  The test of line 356 covers NaN and
  negative values only: an absolute reading of \<^verbatim>\<open>inf\<close> after a finite one gives the
  difference \<^verbatim>\<open>inf\<close>, which is reported.
\<close>

theorem consumption_reports_infinite_diff:
  "(case load_all_data
           [esl_doc [esl_period_el ''2024-01-01T00:00:00Z'' [esl_row ''1-1:1.8.1'' ''100''],
                     esl_period_el ''2024-02-01T00:00:00Z'' [esl_row ''1-1:1.8.1'' ''inf'']]] of
      Inl e \<Rightarrow> None
    | Inr meters \<Rightarrow> Some (import_data (build_consumption_payload meters)))
   = Some [Some PosInf]"
  by code_simp

text \<open>
  The rest of the derivation is as the specification says: the first timestamp carries no
  difference, a difference of finite readings is their subtraction, null when negative, and
  a missing reading gives null.
\<close>

lemma diffs_loop_keys: "map fst (diffs_loop series ts) = tl ts"
  by (induction series ts rule: diffs_loop.induct) simp_all

lemma series_diffs_keys: "map fst (series_diffs series) = tl (sort (map fst series))"
  by (simp add: series_diffs_def diffs_loop_keys)

lemma diff_of_finite:
  "diff_of (Finite a) (Finite b) = (if b - a < 0 then None else Some (Finite (b - a)))"
  by (simp add: diff_of_def fsub_def Let_def)

lemma diff_of_missing: "diff_of NaN v = None" "diff_of v NaN = None"
  by (cases v; simp add: diff_of_def fsub_def Let_def)+

lemma series_diffs_reset_example:
  "map (diffs_get (series_diffs
          [(1, \<lparr>timestamp = 1, value = Finite 100, relative = NaN\<rparr>),
           (2, \<lparr>timestamp = 2, value = Finite 80, relative = NaN\<rparr>),
           (3, \<lparr>timestamp = 3, value = Finite 130, relative = NaN\<rparr>)])) [1, 2, 3]
     = [None, None, Some (Finite 50)]"
  by code_simp

section \<open>The store as a sequence of updates\<close>

lemma add_or_update_upsert:
  "add_or_update_messwert series ts val rel = upsert ts (blank ts) (apply_fields val rel) series"
  by (simp add: add_or_update_messwert_def upsert_def blank_def apply_fields_def
      split: option.splits)

lemma merge_into_upsert:
  "merge_into meters mid ts val rel =
     upsert mid [] (upsert ts (blank ts) (apply_fields val rel)) meters"
  by (simp add: merge_into_def upsert_def [of mid] get_series_def add_or_update_upsert)

lemma distinct_add_or_update:
  "distinct (map fst series) \<Longrightarrow> distinct (map fst (add_or_update_messwert series ts val rel))"
  by (simp add: add_or_update_upsert distinct_upsert)

lemma wf_store_Nil: "wf_store []"
  by (simp add: wf_store_def)

lemma wf_store_get_series: "wf_store meters \<Longrightarrow> distinct (map fst (get_series meters mid))"
  by (auto simp: wf_store_def get_series_def list_all_iff split: option.splits
      dest!: map_of_SomeD)

lemma set_update_subset: "set (AList.update k v al) \<subseteq> insert (k, v) (set al)"
  by (induction al) auto

lemma wf_store_update:
  assumes "wf_store meters" and "distinct (map fst series)"
  shows "wf_store (AList.update mid series meters)"
  using assms set_update_subset [of mid series meters]
  by (auto simp: wf_store_def list_all_iff distinct_update)

lemma wf_store_merge_into: "wf_store meters \<Longrightarrow> wf_store (merge_into meters mid ts val rel)"
  unfolding merge_into_def
  by (intro wf_store_update distinct_add_or_update wf_store_get_series)

lemma apply_ops_Nil [simp]: "apply_ops [] meters = meters"
  by (simp add: apply_ops_def)

lemma apply_ops_Cons [simp]:
  "apply_ops ((mid, ts, v) # ops) meters = apply_ops ops (merge_into meters mid ts (Some v) None)"
  by (simp add: apply_ops_def)

lemma apply_ops_append [simp]:
  "apply_ops (ops @ ops') meters = apply_ops ops' (apply_ops ops meters)"
  by (simp add: apply_ops_def)

lemma wf_store_apply_ops: "wf_store meters \<Longrightarrow> wf_store (apply_ops ops meters)"
  by (induction ops arbitrary: meters) (auto simp: wf_store_merge_into)

lemma esl_period_as_ops:
  "esl_period tp meters = map_sum id (\<lambda>ops. apply_ops ops meters) (esl_period_ops tp)"
  by (simp add: esl_period_def esl_period_ops_def Let_def split: sum.splits)

lemma esl_periods_as_ops:
  "esl_periods tps meters = map_sum id (\<lambda>ops. apply_ops ops meters) (esl_ops tps)"
  by (induction tps arbitrary: meters) (auto simp: esl_period_as_ops split: sum.splits)

lemma apply_ops_upserts: "apply_ops ops meters = upserts (\<lambda>_. []) (store_ops ops) meters"
  by (induction ops arbitrary: meters) (auto simp: store_ops_def merge_into_upsert)

lemma comp_at_store_ops:
  "comp_at (store_ops ops) mid series = upserts blank (series_ops mid ops) series"
  by (induction ops arbitrary: series) (auto simp: store_ops_def series_ops_def)

text \<open>The updates at one timestamp combine to "leave as is" or "set the value to \<open>v\<close>".\<close>

lemma comp_at_series_ops:
  "\<exists>c. \<forall>x. comp_at (series_ops mid ops) k x =
           (case c of None \<Rightarrow> x | Some v \<Rightarrow> apply_fields (Some v) None x)"
proof (induction ops)
  case Nil
  show ?case by (intro exI [of _ None]) (simp add: series_ops_def)
next
  case (Cons op ops)
  obtain mid' ts v where op: "op = (mid', ts, v)" by (cases op)
  from Cons.IH obtain c where c:
    "\<And>x. comp_at (series_ops mid ops) k x =
            (case c of None \<Rightarrow> x | Some v \<Rightarrow> apply_fields (Some v) None x)"
    by blast
  show ?case
  proof (cases "mid' = mid \<and> ts = k")
    case True
    then have "\<forall>x. comp_at (series_ops mid (op # ops)) k x =
                 (case (case c of None \<Rightarrow> Some v | Some w \<Rightarrow> Some w) of
                    None \<Rightarrow> x | Some v \<Rightarrow> apply_fields (Some v) None x)"
      using c by (simp add: op series_ops_def apply_fields_def split: option.splits)
    then show ?thesis by blast
  next
    case False
    then have "\<forall>x. comp_at (series_ops mid (op # ops)) k x =
                 (case c of None \<Rightarrow> x | Some v \<Rightarrow> apply_fields (Some v) None x)"
      using c by (auto simp: op series_ops_def)
    then show ?thesis by blast
  qed
qed

lemma comp_at_series_ops_idem:
  "comp_at (series_ops mid ops) k (comp_at (series_ops mid ops) k x)
     = comp_at (series_ops mid ops) k x"
proof -
  from comp_at_series_ops [of mid ops k] obtain c where
    "\<And>x. comp_at (series_ops mid ops) k x =
            (case c of None \<Rightarrow> x | Some v \<Rightarrow> apply_fields (Some v) None x)"
    by blast
  then show ?thesis
    by (simp add: apply_fields_def split: option.splits)
qed

lemma series_ops_idem:
  assumes "distinct (map fst series)"
  shows "upserts blank (series_ops mid ops) (upserts blank (series_ops mid ops) series)
           = upserts blank (series_ops mid ops) series"
  using assms by (intro upserts_idem) (simp_all add: comp_at_series_ops_idem)

lemma wf_store_lookup:
  "wf_store meters \<Longrightarrow>
   distinct (map fst (case map_of meters mid of None \<Rightarrow> [] | Some s \<Rightarrow> s))"
  using wf_store_get_series [of meters mid] by (simp add: get_series_def)

text \<open>Applying the updates of a file a second time changes nothing.\<close>

lemma apply_ops_idem:
  assumes "wf_store meters"
  shows "apply_ops ops (apply_ops ops meters) = apply_ops ops meters"
  unfolding apply_ops_upserts
proof (rule upserts_idem)
  show "distinct (map fst meters)"
    using assms by (simp add: wf_store_def)
next
  fix mid
  show "comp_at (store_ops ops) mid
          (comp_at (store_ops ops) mid (case map_of meters mid of None \<Rightarrow> [] | Some x \<Rightarrow> x))
        = comp_at (store_ops ops) mid (case map_of meters mid of None \<Rightarrow> [] | Some x \<Rightarrow> x)"
    unfolding comp_at_store_ops
    by (rule series_ops_idem) (rule wf_store_lookup [OF assms])
qed

section \<open>What the two parsers do to the store\<close>

lemma findall_TimePeriod:
  "findall e ''TimePeriod'' = Inr (filter (\<lambda>x. xtag x = ''TimePeriod'') (descendants e))"
  by (simp add: findall_def prefixed_def)


lemma parse_esl_file_as_ops:
  "parse_esl_file (WellFormed r) meters =
     (if filter (\<lambda>x. xtag x = ''TimePeriod'') (descendants r) = [] then Inr (False, meters)
      else map_sum id (\<lambda>ops. (True, apply_ops ops meters))
             (esl_ops (filter (\<lambda>x. xtag x = ''TimePeriod'') (descendants r))))"
  by (cases "esl_ops (filter (\<lambda>x. xtag x = ''TimePeriod'') (descendants r))")
    (simp_all add: parse_esl_file_def findall_TimePeriod esl_periods_as_ops)

lemma parse_esl_file_False:
  "meters' = meters" if "parse_esl_file f meters = Inr (False, meters')"
proof (cases f)
  case Malformed
  then show ?thesis using that by (simp add: parse_esl_file_def)
next
  case (WellFormed r)
  then show ?thesis using that
    by (cases "esl_ops (filter (\<lambda>x. xtag x = ''TimePeriod'') (descendants r))")
      (auto simp: parse_esl_file_as_ops split: if_splits)
qed

lemma parse_esl_file_wf:
  "wf_store meters'" if "wf_store meters" and "parse_esl_file f meters = Inr (b, meters')"
proof (cases f)
  case Malformed
  then show ?thesis using that by (simp add: parse_esl_file_def)
next
  case (WellFormed r)
  then show ?thesis using that
    by (cases "esl_ops (filter (\<lambda>x. xtag x = ''TimePeriod'') (descendants r))")
      (auto simp: parse_esl_file_as_ops wf_store_apply_ops split: if_splits)
qed

lemma parse_esl_file_idem:
  "parse_esl_file f meters' = Inr (b, meters')"
  if "wf_store meters" and "parse_esl_file f meters = Inr (b, meters')"
proof (cases f)
  case Malformed
  then show ?thesis using that by (simp add: parse_esl_file_def)
next
  case (WellFormed r)
  then show ?thesis using that
    by (cases "esl_ops (filter (\<lambda>x. xtag x = ''TimePeriod'') (descendants r))")
      (auto simp: parse_esl_file_as_ops apply_ops_idem split: if_splits)
qed

text \<open>Every lookup of \<^verbatim>\<open>find_text\<close> starts with the candidate prefix \<^verbatim>\<open>rsm\<close>.\<close>

lemma find_text_raises: "find_text r (s # ss) = Inl SyntaxError"
  by (simp add: find_text_def ns_candidates_def qualify_def find_elem_def findall_def
      prefixed_def)

lemma parse_sdat_file_cases:
  "parse_sdat_file f meters = Inl SyntaxError \<or> parse_sdat_file f meters = Inr (False, meters)"
  by (cases f) (simp_all add: parse_sdat_file_def find_text_raises)

lemma load_file_cases:
  assumes "load_file f meters = Inr meters'"
  shows "parse_esl_file f meters = Inr (True, meters') \<or> meters' = meters"
proof (cases "parse_esl_file f meters")
  case (Inl e)
  with assms show ?thesis by (simp add: load_file_def route_def)
next
  case (Inr p)
  obtain b m where p: "p = (b, m)" by (cases p)
  show ?thesis
  proof (cases b)
    case True
    with assms Inr p show ?thesis by (simp add: load_file_def route_def)
  next
    case False
    with Inr p have m: "m = meters" by (auto dest: parse_esl_file_False)
    from parse_sdat_file_cases [of f meters] assms Inr p False m
    show ?thesis by (auto simp: load_file_def route_def)
  qed
qed

lemma load_file_wf: "wf_store meters \<Longrightarrow> load_file f meters = Inr meters' \<Longrightarrow> wf_store meters'"
  by (auto dest!: load_file_cases dest: parse_esl_file_wf)

lemma load_file_idem:
  assumes "wf_store meters" and "load_file f meters = Inr meters'"
  shows "load_file f meters' = Inr meters'"
proof -
  from load_file_cases [OF assms(2)] show ?thesis
  proof
    assume "parse_esl_file f meters = Inr (True, meters')"
    from parse_esl_file_idem [OF assms(1) this] show ?thesis
      by (simp add: load_file_def route_def)
  next
    assume "meters' = meters"
    with assms(2) show ?thesis by simp
  qed
qed

lemma fold_files_wf:
  "wf_store meters \<Longrightarrow> fold_files fs meters = Inr meters' \<Longrightarrow> wf_store meters'"
  by (induction fs arbitrary: meters) (auto split: sum.splits dest: load_file_wf)

section \<open>Sorted series\<close>

lemma sorted_series:
  assumes "distinct (map fst series)"
  shows "sorted_wrt (<) (map fst (sort_key fst series))"
proof -
  have "distinct (map fst (sort_key fst series))"
    using assms by (simp add: distinct_map)
  then show ?thesis
    by (simp add: strict_sorted_iff)
qed

text \<open>
  C6.  Every series of the store a completed load returns has strictly ascending
  timestamps, whatever the order in which the files gave them.
\<close>

theorem load_all_data_series_ascending:
  assumes "load_all_data files = Inr meters"
    and "(mid, series) \<in> set meters"
  shows "sorted_wrt (<) (map fst series)
         \<and> (\<forall>i. Suc i < length series \<longrightarrow> fst (series ! i) < fst (series ! Suc i))"
proof -
  from assms(1) obtain m0 where m0: "fold_files files [] = Inr m0" and meters: "meters = sort_series m0"
    by (auto simp: load_all_data_def split: sum.splits)
  have "wf_store m0"
    by (rule fold_files_wf [OF wf_store_Nil m0])
  from assms(2) meters obtain s0 where s0: "(mid, s0) \<in> set m0" and series: "series = sort_key fst s0"
    by (auto simp: sort_series_def)
  from \<open>wf_store m0\<close> s0 have "distinct (map fst s0)"
    by (auto simp: wf_store_def list_all_iff)
  then have sorted: "sorted_wrt (<) (map fst series)"
    unfolding series by (rule sorted_series)
  have "fst (series ! i) < fst (series ! Suc i)" if "Suc i < length series" for i
    using sorted that by (auto simp: sorted_wrt_iff_nth_less dest!: spec [of _ i] spec [of _ "Suc i"])
  with sorted show ?thesis by blast
qed

text \<open>An out-of-order Dialect A file: March, January, February.\<close>

lemma load_out_of_order:
  "load_all_data
     [esl_doc [esl_period_el ''2024-03-01T00:00:00'' [esl_row ''1-1:1.8.1'' ''130''],
               esl_period_el ''2024-01-01T00:00:00Z'' [esl_row ''1-1:1.8.1'' ''100''],
               esl_period_el ''2024-02-01T01:00:00+01:00'' [esl_row ''1-1:1.8.1'' ''80'']]]
   = Inr [(''ID742'',
           [(63839664000000000, \<lparr>timestamp = 63839664000000000, value = Finite 100, relative = NaN\<rparr>),
            (63842342400000000, \<lparr>timestamp = 63842342400000000, value = Finite 80, relative = NaN\<rparr>),
            (63844848000000000, \<lparr>timestamp = 63844848000000000, value = Finite 130, relative = NaN\<rparr>)])]"
  by code_simp

theorem load_all_data_series_ascending_witness:
  "load_all_data
     [esl_doc [esl_period_el ''2024-03-01T00:00:00'' [esl_row ''1-1:1.8.1'' ''130''],
               esl_period_el ''2024-01-01T00:00:00Z'' [esl_row ''1-1:1.8.1'' ''100''],
               esl_period_el ''2024-02-01T01:00:00+01:00'' [esl_row ''1-1:1.8.1'' ''80'']]]
   = Inr [(''ID742'',
           [(63839664000000000, \<lparr>timestamp = 63839664000000000, value = Finite 100, relative = NaN\<rparr>),
            (63842342400000000, \<lparr>timestamp = 63842342400000000, value = Finite 80, relative = NaN\<rparr>),
            (63844848000000000, \<lparr>timestamp = 63844848000000000, value = Finite 130, relative = NaN\<rparr>)])]
   \<and> sorted_wrt (<) [63839664000000000, 63842342400000000, (63844848000000000::int)]"
  using load_all_data_series_ascending [OF load_out_of_order, of "''ID742''"
      "[(63839664000000000, \<lparr>timestamp = 63839664000000000, value = Finite 100, relative = NaN\<rparr>),
        (63842342400000000, \<lparr>timestamp = 63842342400000000, value = Finite 80, relative = NaN\<rparr>),
        (63844848000000000, \<lparr>timestamp = 63844848000000000, value = Finite 130, relative = NaN\<rparr>)]"]
    load_out_of_order
  by simp

section \<open>Folding a file twice\<close>

text \<open>
  C9.  Folding one file twice into a fresh store gives the store that folding it once
  gives, and the same result of the load (the same exception when the file raises).
\<close>

theorem fold_file_twice:
  "fold_files [f, f] [] = fold_files [f] [] \<and> load_all_data [f, f] = load_all_data [f]"
proof -
  have "fold_files [f, f] [] = fold_files [f] []"
  proof (cases "load_file f []")
    case (Inl e)
    then show ?thesis by simp
  next
    case (Inr m)
    from load_file_idem [OF wf_store_Nil Inr] Inr show ?thesis by simp
  qed
  then show ?thesis by (simp add: load_all_data_def)
qed

section \<open>Routing\<close>

text \<open>
  C4.  When \<^verbatim>\<open>parse_esl_file\<close> reports success on a file, the result of the router is the
  store Dialect A left, whatever the second parser would do with the file: the second
  parser is not called.  A document with a \<^verbatim>\<open>TimePeriod\<close> descendant never reaches the
  second parser: the router gives what Dialect A gives, its store or its exception.
\<close>

theorem esl_success_excludes_sdat:
  "(parse_esl_file f meters = Inr (True, meters') \<longrightarrow>
      route parse_esl_file sdat f meters = Inr meters' \<and> load_file f meters = Inr meters')
   \<and> (filter (\<lambda>x. xtag x = ''TimePeriod'') (descendants r) \<noteq> [] \<longrightarrow>
      route parse_esl_file sdat (WellFormed r) meters
        = map_sum id snd (parse_esl_file (WellFormed r) meters))"
proof -
  have "route parse_esl_file sdat (WellFormed r) meters
          = map_sum id snd (parse_esl_file (WellFormed r) meters)"
    if "filter (\<lambda>x. xtag x = ''TimePeriod'') (descendants r) \<noteq> []"
    using that
    by (cases "esl_ops (filter (\<lambda>x. xtag x = ''TimePeriod'') (descendants r))")
      (simp_all add: route_def parse_esl_file_as_ops)
  then show ?thesis
    by (simp add: route_def load_file_def)
qed

lemma esl_with_sdat_tokens_parsed: "parse_esl_file esl_with_sdat_tokens [] = Inr (True, [])"
  by code_simp

lemma esl_with_sdat_tokens_sdat: "parse_sdat_file esl_with_sdat_tokens [] = Inl SyntaxError"
  by code_simp

theorem esl_success_excludes_sdat_witness:
  "parse_esl_file esl_with_sdat_tokens [] = Inr (True, [])
   \<and> parse_sdat_file esl_with_sdat_tokens [] = Inl SyntaxError
   \<and> load_file esl_with_sdat_tokens [] = Inr []
   \<and> load_all_data [esl_with_sdat_tokens] = Inr []"
proof -
  from esl_success_excludes_sdat [of esl_with_sdat_tokens "[]" "[]" parse_sdat_file]
    esl_with_sdat_tokens_parsed
  have "load_file esl_with_sdat_tokens [] = Inr []"
    by simp
  then show ?thesis
    using esl_with_sdat_tokens_parsed esl_with_sdat_tokens_sdat
    by (simp add: load_all_data_def sort_series_def)
qed

section \<open>Namespaces in Dialect A\<close>






















section \<open>Unset fields\<close>

lemma update_new_key: "map_of al k = None \<Longrightarrow> AList.update k v al = al @ [(k, v)]"
  by (induction al) (auto split: if_splits)

lemma get_series_merge_into:
  "get_series (merge_into meters mid ts val rel) mid
     = add_or_update_messwert (get_series meters mid) ts val rel"
  by (simp add: merge_into_def get_series_def update_conv')

lemma series_values_nth:
  "i < length lbls \<Longrightarrow>
   series_values meters lbls mid ! i
     = map_option value (map_of (get_series meters mid) (lbls ! i))"
  by (simp add: series_values_def split: option.splits)

text \<open>
  C3, as the code has it.  A reading created by the merge with one field supplied holds
  NaN in the other field.  The raw-reading payload has the timestamp among its labels and
  reports that NaN there, not null; it reports null exactly at the labels where the meter
  has no reading.
\<close>

theorem unsupplied_field_is_nan:
  assumes "map_of series ts = None"
    and "map_of (get_series meters METER_IMPORT_ID) ts = None"
    and "i < length lbls"
  shows "add_or_update_messwert series ts None (Some r)
           = series @ [(ts, \<lparr>timestamp = ts, value = NaN, relative = r\<rparr>)]
         \<and> add_or_update_messwert series ts (Some v) None
           = series @ [(ts, \<lparr>timestamp = ts, value = v, relative = NaN\<rparr>)]
         \<and> ts \<in> set (labels (build_chartjs_payload
                                (merge_into meters METER_IMPORT_ID ts None (Some r))))
         \<and> map_of (zip (labels (build_chartjs_payload
                                 (merge_into meters METER_IMPORT_ID ts None (Some r))))
                        (import_data (build_chartjs_payload
                                 (merge_into meters METER_IMPORT_ID ts None (Some r))))) ts
           = Some (Some NaN)
         \<and> (series_values meters lbls mid ! i = None)
           = (map_of (get_series meters mid) (lbls ! i) = None)"
proof -
  let ?m = "merge_into meters METER_IMPORT_ID ts None (Some r)"
  let ?s = "get_series ?m METER_IMPORT_ID"
  let ?p = "build_chartjs_payload ?m"
  have s: "?s = get_series meters METER_IMPORT_ID @ [(ts, \<lparr>timestamp = ts, value = NaN, relative = r\<rparr>)]"
    using assms(2) by (simp add: get_series_merge_into add_or_update_messwert_def update_new_key)
  have look: "map_of ?s ts = Some \<lparr>timestamp = ts, value = NaN, relative = r\<rparr>"
    using assms(2) by (simp add: s map_add_def)
  have "map_of ?m METER_IMPORT_ID = Some ?s"
    by (simp add: merge_into_def get_series_def update_conv')
  then have mem: "(METER_IMPORT_ID, ?s) \<in> set ?m"
    by (rule map_of_SomeD)
  have "ts \<in> set (map fst ?s)"
    by (simp add: s)
  with mem have lbl: "ts \<in> set (labels ?p)"
    by (force simp: build_chartjs_payload_def Let_def sorted_labels_def)
  have "map_of (zip (labels ?p) (import_data ?p)) ts = Some (Some NaN)"
    using lbl look
    by (simp add: build_chartjs_payload_def Let_def series_values_def map_of_zip_map)
  moreover have "add_or_update_messwert series ts None (Some r)
           = series @ [(ts, \<lparr>timestamp = ts, value = NaN, relative = r\<rparr>)]"
    and "add_or_update_messwert series ts (Some v) None
           = series @ [(ts, \<lparr>timestamp = ts, value = v, relative = NaN\<rparr>)]"
    using assms(1) by (simp_all add: add_or_update_messwert_def update_new_key)
  moreover have "(series_values meters lbls mid ! i = None)
           = (map_of (get_series meters mid) (lbls ! i) = None)"
    using assms(3) by (simp add: series_values_nth)
  ultimately show ?thesis using lbl by blast
qed

text \<open>The claim as written fails on the reading a relative volume alone creates: its
  absolute value is NaN and the payload reports NaN at its label.\<close>

theorem raw_payload_reports_nan:
  "add_or_update_messwert [] 7 None (Some (Finite 1.5))
     = [(7, \<lparr>timestamp = 7, value = NaN, relative = Finite 1.5\<rparr>)]
   \<and> build_chartjs_payload (merge_into [] METER_IMPORT_ID 7 None (Some (Finite 1.5)))
     = \<lparr>labels = [7], export_data = [None], import_data = [Some NaN]\<rparr>"
  by code_simp

theorem unsupplied_field_is_nan_witness:
  "add_or_update_messwert [] 7 None (Some (Finite 3))
     = [(7, \<lparr>timestamp = 7, value = NaN, relative = Finite 3\<rparr>)]
   \<and> add_or_update_messwert [] 7 (Some (Finite 5)) None
     = [(7, \<lparr>timestamp = 7, value = Finite 5, relative = NaN\<rparr>)]
   \<and> 7 \<in> set (labels (build_chartjs_payload (merge_into [] METER_IMPORT_ID 7 None (Some (Finite 3)))))
   \<and> series_values [] [7] METER_EXPORT_ID ! 0 = None"
  using unsupplied_field_is_nan [of "[]" 7 "[]" 0 "[7]" "Finite 3" "Finite 5" METER_EXPORT_ID]
  by (simp add: get_series_def)

end
